theory Spec2Isabelle
  imports Main "HOL-Library.AList" "HOL-Library.Monad_Syntax"
begin

section \<open>The state of an equivalence object\<close>

text \<open>
  The module \<^verbatim>\<open>equivalence.py\<close> has four classes, selected by the factory
  \<^verbatim>\<open>equivalence(key, bidirectional)\<close>. They differ in two independent ways: whether a
  key function is present (\<^verbatim>\<open>KeyEquivalence\<close>) and whether the children index is kept
  (\<^verbatim>\<open>BidirectionalEquivalence\<close>). One record holds the attributes of all four; the two
  selectors \<open>keyfunc\<close> and \<open>bidirectional\<close> stand for the class of the object, and every
  \<^verbatim>\<open>self.method\<close> call of the source is a dispatch on them.

  Python dictionaries are association lists (the order of the list is the iteration order
  of the dictionary, new keys at the end), Python sets stored in a dictionary are lists
  without duplicates. Objects and keys have one type, since the source passes both of
  them to the same \<^verbatim>\<open>_find\<close>.
\<close>

datatype error = ValueError | KeyError

record 'a equivalence =
  keyfunc :: "('a \<Rightarrow> 'a) option"
  bidirectional :: bool
  child2parent :: "('a \<times> 'a option) list"
  rank :: "('a \<times> int) list"
  parent2children :: "('a \<times> 'a list) list"
  key2objects :: "('a \<times> 'a list) list"

definition equivalence :: "('a \<Rightarrow> 'a) option \<Rightarrow> bool \<Rightarrow> 'a equivalence" where
  "equivalence key bidir =
     \<lparr>keyfunc = key, bidirectional = bidir, child2parent = [], rank = [],
      parent2children = [], key2objects = []\<rparr>"

text \<open>The objects in the forest: the keys of \<^verbatim>\<open>_child2parent\<close>.\<close>

definition tracked :: "'a equivalence \<Rightarrow> 'a set" where
  "tracked s = fst ` set (child2parent s)"

text \<open>\<^verbatim>\<open>self._parent2children.get(node, ())\<close> and \<^verbatim>\<open>self._key2objects.get(key, ())\<close>.\<close>

definition get_children :: "'a equivalence \<Rightarrow> 'a \<Rightarrow> 'a list" where
  "get_children s node = (case map_of (parent2children s) node of None \<Rightarrow> [] | Some cs \<Rightarrow> cs)"

definition get_objects :: "'a equivalence \<Rightarrow> 'a \<Rightarrow> 'a list" where
  "get_objects s key = (case map_of (key2objects s) key of None \<Rightarrow> [] | Some os \<Rightarrow> os)"

section \<open>The protected methods\<close>

text \<open>\<^verbatim>\<open>Equivalence._join\<close> and its override \<^verbatim>\<open>BidirectionalEquivalence._join\<close>.\<close>

definition Equivalence_join :: "'a equivalence \<Rightarrow> 'a \<Rightarrow> 'a option \<Rightarrow> 'a equivalence" where
  "Equivalence_join s obj parent = s\<lparr>child2parent := AList.update obj parent (child2parent s)\<rparr>"

definition Bidirectional_join :: "'a equivalence \<Rightarrow> 'a \<Rightarrow> 'a option \<Rightarrow> 'a equivalence" where
  "Bidirectional_join s obj parent =
     (let s1 = Equivalence_join s obj parent in
      case parent of
        None \<Rightarrow> s1
      | Some p \<Rightarrow>
          s1\<lparr>parent2children :=
                AList.update p (List.insert obj (get_children s1 p)) (parent2children s1)\<rparr>)"

definition join :: "'a equivalence \<Rightarrow> 'a \<Rightarrow> 'a option \<Rightarrow> 'a equivalence" where
  "join s obj parent =
     (if bidirectional s then Bidirectional_join s obj parent else Equivalence_join s obj parent)"

definition set_rank :: "'a equivalence \<Rightarrow> 'a \<Rightarrow> int \<Rightarrow> 'a equivalence" where
  "set_rank s obj r = s\<lparr>rank := AList.update obj r (rank s)\<rparr>"

text \<open>
  \<^verbatim>\<open>KeyEquivalence._find\<close> hands \<^verbatim>\<open>self._keyfunc(obj)\<close> to \<^verbatim>\<open>Equivalence._find\<close>; without a
  key function \<^verbatim>\<open>self._find\<close> is \<^verbatim>\<open>Equivalence._find\<close> itself. \<open>key_of\<close> is that
  translation of the argument.
\<close>

definition key_of :: "'a equivalence \<Rightarrow> 'a \<Rightarrow> 'a" where
  "key_of s obj = (case keyfunc s of None \<Rightarrow> obj | Some k \<Rightarrow> k obj)"

text \<open>
  \<^verbatim>\<open>Equivalence._find\<close>. Its recursive call is \<^verbatim>\<open>self._find(parent)\<close>, which in a keyed
  object is the override, so the parent goes through \<open>key_of\<close> again. The recursion
  follows parent links with nothing that bounds it, so the function is partial:
  \<open>None\<close> is a call that never returns.
\<close>

partial_function (option) Equivalence_find ::
  "'a equivalence \<Rightarrow> 'a \<Rightarrow> bool \<Rightarrow> ('a equivalence \<times> 'a) option" where
  "Equivalence_find s obj insert_if_missing =
     (case map_of (child2parent s) obj of
        None \<Rightarrow>
          if insert_if_missing then Some (set_rank (join s obj None) obj 0, obj)
          else Some (s, obj)
      | Some None \<Rightarrow> Some (s, obj)
      | Some (Some parent) \<Rightarrow>
          do {
            (s1, root) \<leftarrow> Equivalence_find s (key_of s parent) False;
            Some (join s1 obj (Some root), root)
          })"

text \<open>\<^verbatim>\<open>self._find\<close>.\<close>

definition find_root :: "'a equivalence \<Rightarrow> 'a \<Rightarrow> bool \<Rightarrow> ('a equivalence \<times> 'a) option" where
  "find_root s obj insert_if_missing = Equivalence_find s (key_of s obj) insert_if_missing"

text \<open>\<^verbatim>\<open>KeyEquivalence._update_key2objects\<close>; the list of keys it returns is
  \<open>map (key_of s) objects\<close>.\<close>

fun update_key2objects :: "'a equivalence \<Rightarrow> 'a list \<Rightarrow> 'a equivalence" where
  "update_key2objects s [] = s"
| "update_key2objects s (obj # objects) =
     update_key2objects
       (s\<lparr>key2objects :=
            AList.update (key_of s obj) (List.insert obj (get_objects s (key_of s obj)))
              (key2objects s)\<rparr>)
       objects"

text \<open>\<^verbatim>\<open>_iter_objects\<close> of \<^verbatim>\<open>Equivalence\<close> and of \<^verbatim>\<open>KeyEquivalence\<close>.\<close>

definition iter_objects :: "'a equivalence \<Rightarrow> 'a list" where
  "iter_objects s =
     (case keyfunc s of
        None \<Rightarrow> map fst (child2parent s)
      | Some k \<Rightarrow> concat (map snd (key2objects s)))"

section \<open>The public methods\<close>

subsection \<open>update\<close>

fun Equivalence_update :: "'a equivalence \<Rightarrow> 'a list \<Rightarrow> 'a equivalence" where
  "Equivalence_update s [] = s"
| "Equivalence_update s (obj # objects) =
     Equivalence_update
       (if obj \<in> tracked s then s else set_rank (join s obj None) obj 0) objects"

definition Key_update :: "'a equivalence \<Rightarrow> 'a list \<Rightarrow> 'a equivalence" where
  "Key_update s objects =
     Equivalence_update (update_key2objects s objects) (map (key_of s) objects)"

definition update :: "'a equivalence \<Rightarrow> 'a list \<Rightarrow> 'a equivalence" where
  "update s objects =
     (case keyfunc s of None \<Rightarrow> Equivalence_update s objects | Some k \<Rightarrow> Key_update s objects)"

subsection \<open>merge\<close>

text \<open>
  The body of the \<^verbatim>\<open>for\<close> loop of \<^verbatim>\<open>Equivalence.merge\<close>. The variable \<^verbatim>\<open>root\<close> is
  assigned once, before the loop, and the loop never assigns it again. \<^verbatim>\<open>rank[x]\<close>
  raises \<^verbatim>\<open>KeyError\<close> for an absent \<open>x\<close>; the state at that moment is returned with
  the error.
\<close>

fun merge_loop ::
  "'a equivalence \<Rightarrow> 'a \<Rightarrow> 'a list \<Rightarrow> ('a equivalence \<times> (error + unit)) option" where
  "merge_loop s root [] = Some (s, Inr ())"
| "merge_loop s root (obj # objects) =
     (case find_root s obj True of
        None \<Rightarrow> None
      | Some (s1, root2) \<Rightarrow>
          (case map_of (rank s1) root of
             None \<Rightarrow> Some (s1, Inl KeyError)
           | Some r \<Rightarrow>
               (case map_of (rank s1) root2 of
                  None \<Rightarrow> Some (s1, Inl KeyError)
                | Some r2 \<Rightarrow>
                    if r > r2 then merge_loop (join s1 root2 (Some root)) root objects
                    else if r < r2 then merge_loop (join s1 root (Some root2)) root objects
                    else if root \<noteq> root2 then
                      merge_loop (join (set_rank s1 root (r + 1)) root2 (Some root)) root objects
                    else merge_loop s1 root objects)))"

definition Equivalence_merge ::
  "'a equivalence \<Rightarrow> 'a list \<Rightarrow> ('a equivalence \<times> (error + unit)) option" where
  "Equivalence_merge s objects =
     (case objects of
        [] \<Rightarrow> Some (s, Inr ())
      | obj # rest \<Rightarrow>
          (case find_root s obj True of
             None \<Rightarrow> None
           | Some (s1, root) \<Rightarrow> merge_loop s1 root rest))"

definition Key_merge ::
  "'a equivalence \<Rightarrow> 'a list \<Rightarrow> ('a equivalence \<times> (error + unit)) option" where
  "Key_merge s objects = Equivalence_merge (update_key2objects s objects) objects"

definition merge ::
  "'a equivalence \<Rightarrow> 'a list \<Rightarrow> ('a equivalence \<times> (error + unit)) option" where
  "merge s objects =
     (case keyfunc s of None \<Rightarrow> Equivalence_merge s objects | Some k \<Rightarrow> Key_merge s objects)"

subsection \<open>are_equivalent\<close>

fun are_equivalent_loop ::
  "'a equivalence \<Rightarrow> 'a \<Rightarrow> 'a list \<Rightarrow> ('a equivalence \<times> bool) option" where
  "are_equivalent_loop s root [] = Some (s, True)"
| "are_equivalent_loop s root (obj # objects) =
     (case find_root s obj False of
        None \<Rightarrow> None
      | Some (s1, r) \<Rightarrow>
          if r \<noteq> root then Some (s1, False) else are_equivalent_loop s1 root objects)"

definition are_equivalent ::
  "'a equivalence \<Rightarrow> 'a list \<Rightarrow> ('a equivalence \<times> (error + bool)) option" where
  "are_equivalent s objects =
     (case objects of
        [] \<Rightarrow> Some (s, Inl ValueError)
      | obj # rest \<Rightarrow>
          (case find_root s obj False of
             None \<Rightarrow> None
           | Some (s1, root) \<Rightarrow>
               (case are_equivalent_loop s1 root rest of
                  None \<Rightarrow> None
                | Some (s2, b) \<Rightarrow> Some (s2, Inr b))))"

subsection \<open>partition\<close>

text \<open>\<^verbatim>\<open>Equivalence.partition\<close>: one \<^verbatim>\<open>find\<close> for the argument, then one for every key
  of \<^verbatim>\<open>_child2parent\<close>, in the order of the dictionary.\<close>

fun partition_loop ::
  "'a equivalence \<Rightarrow> 'a \<Rightarrow> 'a list \<Rightarrow> ('a equivalence \<times> 'a set) option" where
  "partition_loop s root [] = Some (s, {})"
| "partition_loop s root (obj # objects) =
     (case find_root s obj False of
        None \<Rightarrow> None
      | Some (s1, r) \<Rightarrow>
          (case partition_loop s1 root objects of
             None \<Rightarrow> None
           | Some (s2, p) \<Rightarrow> Some (s2, if r = root then insert obj p else p)))"

definition Equivalence_partition ::
  "'a equivalence \<Rightarrow> 'a \<Rightarrow> ('a equivalence \<times> 'a set) option" where
  "Equivalence_partition s obj =
     (case find_root s obj False of
        None \<Rightarrow> None
      | Some (s1, root) \<Rightarrow> partition_loop s1 root (map fst (child2parent s1)))"

text \<open>
  The local function \<^verbatim>\<open>recurse\<close> of \<^verbatim>\<open>BidirectionalEquivalence.partition\<close>: it adds the
  node and calls itself on each child, keeping no record of the nodes it has seen. The
  pending calls are an explicit stack here; \<open>None\<close> is a traversal that never ends.
\<close>

partial_function (option) recurse ::
  "'a equivalence \<Rightarrow> 'a list \<Rightarrow> 'a set \<Rightarrow> 'a set option" where
  "recurse s stack p =
     (case stack of
        [] \<Rightarrow> Some p
      | node # rest \<Rightarrow> recurse s (get_children s node @ rest) (insert node p))"

definition Bidirectional_partition ::
  "'a equivalence \<Rightarrow> 'a \<Rightarrow> ('a equivalence \<times> 'a set) option" where
  "Bidirectional_partition s obj =
     (if obj \<in> tracked s then
        (case find_root s obj False of
           None \<Rightarrow> None
         | Some (s1, root) \<Rightarrow>
             (case recurse s1 [root] {} of None \<Rightarrow> None | Some p \<Rightarrow> Some (s1, p)))
      else Some (s, {}))"

text \<open>The \<^verbatim>\<open>partition\<close> that \<^verbatim>\<open>super(KeyEquivalence, self)\<close> resolves to.\<close>

definition super_partition ::
  "'a equivalence \<Rightarrow> 'a \<Rightarrow> ('a equivalence \<times> 'a set) option" where
  "super_partition s obj =
     (if bidirectional s then Bidirectional_partition s obj else Equivalence_partition s obj)"

definition Key_partition ::
  "'a equivalence \<Rightarrow> 'a \<Rightarrow> ('a equivalence \<times> 'a set) option" where
  "Key_partition s obj =
     (case super_partition s (key_of s obj) of
        None \<Rightarrow> None
      | Some (s1, keys) \<Rightarrow> Some (s1, (\<Union>key \<in> keys. set (get_objects s1 key))))"

definition partition_of ::
  "'a equivalence \<Rightarrow> 'a \<Rightarrow> ('a equivalence \<times> 'a set) option" where
  "partition_of s obj =
     (case keyfunc s of None \<Rightarrow> super_partition s obj | Some k \<Rightarrow> Key_partition s obj)"

subsection \<open>partitions\<close>

fun partitions_loop ::
  "'a equivalence \<Rightarrow> ('a \<times> 'a list) list \<Rightarrow> 'a list \<Rightarrow>
     ('a equivalence \<times> ('a \<times> 'a list) list) option" where
  "partitions_loop s key2partition [] = Some (s, key2partition)"
| "partitions_loop s key2partition (obj # objects) =
     (case find_root s obj False of
        None \<Rightarrow> None
      | Some (s1, r) \<Rightarrow>
          partitions_loop s1
            (AList.update r
               ((case map_of key2partition r of None \<Rightarrow> [] | Some l \<Rightarrow> l) @ [obj])
               key2partition)
            objects)"

definition partitions ::
  "'a equivalence \<Rightarrow> 'a list option \<Rightarrow> ('a equivalence \<times> 'a list list) option" where
  "partitions s objects =
     (case partitions_loop s []
             (case objects of None \<Rightarrow> iter_objects s | Some given \<Rightarrow> given) of
        None \<Rightarrow> None
      | Some (s1, key2partition) \<Rightarrow> Some (s1, map snd key2partition))"

section \<open>Sequences of calls\<close>

datatype 'a call =
  Update "'a list"
| Merge "'a list"
| AreEquivalent "'a list"
| Partition 'a
| Partitions "'a list option"

text \<open>The state a call leaves behind, whether it returned a value or raised; \<open>None\<close>
  when the call never returns.\<close>

fun after :: "'a equivalence \<Rightarrow> 'a call \<Rightarrow> 'a equivalence option" where
  "after s (Update objects) = Some (update s objects)"
| "after s (Merge objects) = map_option fst (merge s objects)"
| "after s (AreEquivalent objects) = map_option fst (are_equivalent s objects)"
| "after s (Partition obj) = map_option fst (partition_of s obj)"
| "after s (Partitions objects) = map_option fst (partitions s objects)"

fun run :: "'a equivalence \<Rightarrow> 'a call list \<Rightarrow> 'a equivalence option" where
  "run s [] = Some s"
| "run s (c # cs) = (case after s c of None \<Rightarrow> None | Some s1 \<Rightarrow> run s1 cs)"


section \<open>Properties of states\<close>








section \<open>Running the code on concrete calls\<close>

lemmas eval_defs = equivalence_def tracked_def get_children_def get_objects_def
  Equivalence_join_def Bidirectional_join_def join_def set_rank_def key_of_def find_root_def
  iter_objects_def Key_update_def update_def Equivalence_merge_def Key_merge_def merge_def
  are_equivalent_def Equivalence_partition_def Bidirectional_partition_def
  super_partition_def Key_partition_def partition_of_def partitions_def
  Equivalence_find.simps recurse.simps

lemma run_snoc: "run s (cs @ [c]) = run s cs \<bind> (\<lambda>s1. after s1 c)"
  by (induction cs arbitrary: s) (auto split: option.splits)

text \<open>
  C1. The claim: after \<^verbatim>\<open>merge(objects...)\<close> every pair of the given objects is
  equivalent. The code at \<^verbatim>\<open>merge(1,2); merge(3,4); merge(0,1,3)\<close>: the third call
  returns normally, and \<^verbatim>\<open>are_equivalent(0,1)\<close> then answers \<open>False\<close>. The loop attaches
  \<^verbatim>\<open>root\<close> (the object 0, rank 0) under the root 1 (rank 1) and keeps 0 as the running
  root; at the next object it attaches 0 under the root 3 instead, which takes 0 away from
  the class of 1.
\<close>

theorem merge_three_leaves_classes_apart:
  "run (equivalence None False) [Merge [1, 2::nat], Merge [3, 4]] \<bind>
     (\<lambda>s. merge s [0, 1, 3] \<bind>
        (\<lambda>(s', r). map_option (\<lambda>(s'', b). (r, b)) (are_equivalent s' [0, 1])))
   = Some (Inr (), Inr False)"
  by (simp add: eval_defs)

text \<open>
  C2. The claim: in every reachable state the parent map is a forest. The code at
  \<^verbatim>\<open>merge(1,2); merge(0,1,3,1)\<close>: the parent of 0 is 1 and the parent of 1 is 0. The
  stale running root 0 has its rank raised by the tie with 3, ties with its own root 1,
  and becomes the parent of 1.
\<close>

theorem merge_four_builds_cycle:
  "map_option child2parent
     (run (equivalence None False) [Merge [1, 2::nat], Merge [0, 1, 3, 1]])
   = Some [(1, Some 0), (2, Some 1), (0, Some 1), (3, Some 0)]"
  by (simp add: eval_defs)

section \<open>A find that never returns\<close>

lemma find_two_cycle:
  assumes a: "map_of (child2parent s) a = Some (Some b)"
    and b: "map_of (child2parent s) b = Some (Some a)"
    and ka: "key_of s a = a" and kb: "key_of s b = b"
  shows "Equivalence_find s a i = None \<and> Equivalence_find s b i = None"
proof -
  have never: "\<not> (s' = s \<and> (x = a \<or> x = b))"
    if ret: "Equivalence_find s' x j = Some y" for s' x j y
  proof (rule Equivalence_find.raw_induct
      [where P = "\<lambda>s' x j y. \<not> (s' = s \<and> (x = a \<or> x = b))", OF _ ret])
    fix find :: "'a equivalence \<Rightarrow> 'a \<Rightarrow> bool \<Rightarrow> ('a equivalence \<times> 'a) option"
      and s' x j y
    assume IH: "\<And>s' x j y. find s' x j = Some y \<Longrightarrow> \<not> (s' = s \<and> (x = a \<or> x = b))"
      and body: "(case map_of (child2parent s') x of
          None \<Rightarrow> if j then Some (set_rank (join s' x None) x 0, x) else Some (s', x)
        | Some None \<Rightarrow> Some (s', x)
        | Some (Some parent) \<Rightarrow>
            find s' (key_of s' parent) False \<bind>
            (\<lambda>(s1, root). Some (join s1 x (Some root), root))) = Some y"
    show "\<not> (s' = s \<and> (x = a \<or> x = b))"
    proof
      assume h: "s' = s \<and> (x = a \<or> x = b)"
      then consider "x = a" | "x = b" by blast
      then show False
      proof cases
        case 1
        with h body a kb obtain z where "find s b False = Some z"
          by (auto split: bind_splits)
        with IH show False by blast
      next
        case 2
        with h body b ka obtain z where "find s a False = Some z"
          by (auto split: bind_splits)
        with IH show False by blast
      qed
    qed
  qed
  show ?thesis
    using never[of s a i] never[of s b i]
    by (cases "Equivalence_find s a i"; cases "Equivalence_find s b i") auto
qed

lemma run_two_merges_state:
  "run (equivalence None False) [Merge [1, 2::nat], Merge [0, 1, 3, 1]] =
   Some \<lparr>keyfunc = None, bidirectional = False,
          child2parent = [(1, Some 0), (2, Some 1), (0, Some 1), (3, Some 0)],
          rank = [(1, 1), (2, 0), (0, 2), (3, 0)], parent2children = [],
          key2objects = []\<rparr>"
  by (simp add: eval_defs)

text \<open>
  C3. The claim: every public operation, in any reachable state, runs to completion and
  returns. The code at \<^verbatim>\<open>merge(1,2); merge(0,1,3,1)\<close>: both calls return, and the next
  call \<^verbatim>\<open>are_equivalent(0)\<close> does not: \<^verbatim>\<open>_find\<close> follows the parent links 0, 1, 0, ...
  of the cycle of C2 with no end.
\<close>

theorem are_equivalent_on_cycle_never_returns:
  "run (equivalence None False) [Merge [1, 2::nat], Merge [0, 1, 3, 1]] \<noteq> None \<and>
   run (equivalence None False) [Merge [1, 2::nat], Merge [0, 1, 3, 1], AreEquivalent [0]]
     = None"
proof -
  let ?s = "\<lparr>keyfunc = None, bidirectional = False,
          child2parent = [(1, Some 0), (2, Some 1), (0, Some (1::nat)), (3, Some 0)],
          rank = [(1, 1), (2, 0), (0, 2), (3, 0)], parent2children = [],
          key2objects = []\<rparr>"
  let ?calls = "[Merge [1, 2::nat], Merge [0, 1, 3, 1]]"
  have "Equivalence_find ?s 0 False = None"
    using find_two_cycle[of ?s 0 1 False] by (simp add: key_of_def)
  then have stuck: "after ?s (AreEquivalent [0]) = None"
    by (simp add: are_equivalent_def find_root_def key_of_def)
  have "run (equivalence None False) (?calls @ [AreEquivalent [0]])
      = run (equivalence None False) ?calls \<bind> (\<lambda>s1. after s1 (AreEquivalent [0]))"
    by (rule run_snoc)
  also have "\<dots> = after ?s (AreEquivalent [0])"
    by (simp only: run_two_merges_state bind.bind_lunit)
  finally have "run (equivalence None False) (?calls @ [AreEquivalent [0]]) = None"
    by (simp only: stuck)
  then have "run (equivalence None False)
      [Merge [1, 2::nat], Merge [0, 1, 3, 1], AreEquivalent [0]] = None"
    by (simp only: append.simps)
  then show ?thesis
    by (simp only: run_two_merges_state) simp
qed

section \<open>The two partition methods\<close>

text \<open>
  C5. The claim: after the same calls, \<^verbatim>\<open>partition(x)\<close> of the bidirectional class and of
  the plain class are the same set. The code at \<^verbatim>\<open>merge(1,2); merge(3,4); merge(0,1,3)\<close>
  and \<open>x = 1\<close>: the bidirectional class answers \<open>{0, 1, 2}\<close>, the plain class
  \<open>{1, 2}\<close>. The merge of C1 moved 0 from under 1 to under 3, and the children index
  still lists 0 under 1.
\<close>

theorem bidirectional_partition_differs:
  "run (equivalence None True) [Merge [1, 2::nat], Merge [3, 4], Merge [0, 1, 3]] \<bind>
       (\<lambda>s. map_option snd (partition_of s 1)) = Some {0, 1, 2}
   \<and> run (equivalence None False) [Merge [1, 2::nat], Merge [3, 4], Merge [0, 1, 3]] \<bind>
       (\<lambda>s. map_option snd (partition_of s 1)) = Some {1, 2}"
  by (simp add: eval_defs insert_commute)

section \<open>Key functions\<close>

text \<open>
  C6. The claim: with a key function \<open>k\<close>, \<^verbatim>\<open>are_equivalent(a,b)\<close> is true whenever
  \<open>k a = k b\<close>, and true after \<^verbatim>\<open>merge(a,b)\<close>. The code with \<open>k n = n + 10\<close> at
  \<^verbatim>\<open>merge(1,2)\<close>: \<^verbatim>\<open>are_equivalent(2,2)\<close> and \<^verbatim>\<open>are_equivalent(1,2)\<close> both answer
  \<open>False\<close>. The recursive call in \<^verbatim>\<open>Equivalence._find\<close> is \<^verbatim>\<open>self._find(parent)\<close>, the
  keyed override, so the key function is applied to the parent, which is a key already:
  the find of 12 looks up 21 in place of its parent 11.
\<close>

theorem keyed_are_equivalent_rekeys_parent:
  "run (equivalence (Some (\<lambda>n. n + 10)) False) [Merge [1, 2::nat]] \<bind>
       (\<lambda>s. map_option snd (are_equivalent s [2, 2])) = Some (Inr False)
   \<and> run (equivalence (Some (\<lambda>n. n + 10)) False) [Merge [1, 2::nat]] \<bind>
       (\<lambda>s. map_option snd (are_equivalent s [1, 2])) = Some (Inr False)"
  by (simp add: eval_defs)

section \<open>Objects that were never inserted\<close>

lemma find_untracked:
  assumes "a \<notin> tracked s"
  shows "Equivalence_find s a False = Some (s, a)"
proof -
  have "map_of (child2parent s) a = None"
    using assms by (simp add: tracked_def map_of_eq_None_iff)
  then show ?thesis
    by (subst Equivalence_find.simps) simp
qed

text \<open>
  C8. An object whose key is not in the forest is its own class for \<^verbatim>\<open>are_equivalent\<close>,
  and the call changes nothing: \<^verbatim>\<open>are_equivalent(x,x)\<close> is \<open>True\<close>,
  \<^verbatim>\<open>are_equivalent(x,y)\<close> is \<open>False\<close> for two such objects with different keys, and the
  state returned is the state given. Without a key function \<open>key_of s x\<close> is \<open>x\<close>
  itself, so the hypotheses read: \<open>x\<close> and \<open>y\<close> were never inserted and are distinct.
\<close>

theorem unseen_objects_are_singletons:
  assumes "key_of s x \<notin> tracked s" and "key_of s y \<notin> tracked s"
    and "key_of s x \<noteq> key_of s y"
  shows "are_equivalent s [x, x] = Some (s, Inr True) \<and>
         are_equivalent s [x, y] = Some (s, Inr False)"
  using assms by (simp add: are_equivalent_def find_root_def find_untracked)

theorem unseen_objects_are_singletons_witness:
  "are_equivalent (update (equivalence None False) [1, 2::nat]) [5, 5]
     = Some (update (equivalence None False) [1, 2], Inr True) \<and>
   are_equivalent (update (equivalence None False) [1, 2::nat]) [5, 6]
     = Some (update (equivalence None False) [1, 2], Inr False)"
  using unseen_objects_are_singletons
    [of "update (equivalence None False) [1, 2::nat]" 5 6]
  by (simp add: equivalence_def update_def tracked_def key_of_def join_def
      Equivalence_join_def set_rank_def)

section \<open>Calls with no objects\<close>


section \<open>What every call preserves\<close>

text \<open>
  All writes to the state go through \<^verbatim>\<open>_join\<close>, the assignments to \<^verbatim>\<open>_rank\<close> and the
  assignments to \<^verbatim>\<open>_key2objects\<close>. A property that these three keep is kept by every
  call that returns.
\<close>

lemma map_of_join [simp]:
  "map_of (child2parent (join s obj parent)) = (map_of (child2parent s))(obj \<mapsto> parent)"
  by (simp add: join_def Bidirectional_join_def Equivalence_join_def update_conv' Let_def
      split: option.splits)


lemma join_fields [simp]:
  "keyfunc (join s obj parent) = keyfunc s"
  "bidirectional (join s obj parent) = bidirectional s"
  "rank (join s obj parent) = rank s"
  "key2objects (join s obj parent) = key2objects s"
  by (simp_all add: join_def Bidirectional_join_def Equivalence_join_def Let_def
      split: option.splits)

lemma set_rank_fields [simp]:
  "keyfunc (set_rank s obj r) = keyfunc s"
  "bidirectional (set_rank s obj r) = bidirectional s"
  "child2parent (set_rank s obj r) = child2parent s"
  "parent2children (set_rank s obj r) = parent2children s"
  "key2objects (set_rank s obj r) = key2objects s"
  by (simp_all add: set_rank_def)

lemma get_children_set_rank [simp]: "get_children (set_rank s obj r) = get_children s"
  by (simp add: get_children_def fun_eq_iff)














section \<open>The children index\<close>




section \<open>Find and partition in a forest\<close>


lemma tracked_dom: "tracked s = dom (map_of (child2parent s))"
  by (simp add: tracked_def dom_map_of_conv_image_fst)

lemma tracked_join [simp]: "tracked (join s obj parent) = insert obj (tracked s)"
  by (simp add: tracked_dom)

lemma tracked_set_rank [simp]: "tracked (set_rank s obj r) = tracked s"
  by (simp add: tracked_def)



















lemma set_keys_tracked: "set (map fst (child2parent s)) = tracked s"
  by (simp add: tracked_def)











section \<open>The keyed partition on a cycle\<close>

lemma run_two_keyed_merges_state:
  "run (equivalence (Some (\<lambda>n. n mod 10)) False) [Merge [1, 2::nat], Merge [0, 1, 3, 1]] =
   Some \<lparr>keyfunc = Some (\<lambda>n. n mod 10), bidirectional = False,
          child2parent = [(1, Some 0), (2, Some 1), (0, Some 1), (3, Some 0)],
          rank = [(1, 1), (2, 0), (0, 2), (3, 0)], parent2children = [],
          key2objects = [(1, [1]), (2, [2]), (0, [0]), (3, [3])]\<rparr>"
  by (simp add: eval_defs)

text \<open>
  C10. The claim: an object never inserted, whose key is the key of an inserted object,
  receives from \<^verbatim>\<open>partition\<close> the non-empty set of that object. The code with the key
  function \<open>n mod 10\<close> at \<^verbatim>\<open>merge(1,2); merge(0,1,3,1)\<close>: the buckets hold 1, 2, 0 and 3,
  the object 11 is in none of them and has the key of the inserted object 1, and
  \<^verbatim>\<open>partition(11)\<close> does not return: the two merges leave the keys 0 and 1 on the cycle
  of C2.
\<close>

theorem keyed_partition_on_cycle_never_returns:
  "map_option key2objects
     (run (equivalence (Some (\<lambda>n. n mod 10)) False) [Merge [1, 2::nat], Merge [0, 1, 3, 1]])
     = Some [(1, [1]), (2, [2]), (0, [0]), (3, [3])] \<and>
   run (equivalence (Some (\<lambda>n. n mod 10)) False)
     [Merge [1, 2::nat], Merge [0, 1, 3, 1], Partition 11] = None"
proof -
  let ?s = "\<lparr>keyfunc = Some (\<lambda>n. n mod 10), bidirectional = False,
          child2parent = [(1, Some 0), (2, Some 1), (0, Some (1::nat)), (3, Some 0)],
          rank = [(1, 1), (2, 0), (0, 2), (3, 0)], parent2children = [],
          key2objects = [(1, [1]), (2, [2]), (0, [0]), (3, [3])]\<rparr>"
  let ?e = "equivalence (Some (\<lambda>n::nat. n mod 10)) False"
  let ?calls = "[Merge [1, 2::nat], Merge [0, 1, 3, 1]]"
  have "Equivalence_find ?s 1 False = None"
    using find_two_cycle[of ?s 0 1 False] by (simp add: key_of_def)
  then have stuck: "after ?s (Partition 11) = None"
    by (simp add: partition_of_def Key_partition_def super_partition_def
        Equivalence_partition_def find_root_def key_of_def)
  have "run ?e (?calls @ [Partition 11]) = run ?e ?calls \<bind> (\<lambda>s1. after s1 (Partition 11))"
    by (rule run_snoc)
  also have "\<dots> = after ?s (Partition 11)"
    by (simp only: run_two_keyed_merges_state bind.bind_lunit)
  finally have "run ?e (?calls @ [Partition 11]) = None"
    by (simp only: stuck)
  then have "run ?e [Merge [1, 2::nat], Merge [0, 1, 3, 1], Partition 11] = None"
    by (simp only: append.simps)
  then show ?thesis
    by (simp only: run_two_keyed_merges_state) simp
qed

end
